theory Spec2Isabelle
  imports Main "HOL-Library.Word" "HOL-Library.AList"
begin

section \<open>Python values used by the decoders\<close>

text \<open>
  The decoders of \<^verbatim>\<open>tx_decode.py\<close> take a \<^verbatim>\<open>bytes\<close> object and return a
  \<^verbatim>\<open>dict\<close> from strings to strings, integers, floats or \<^verbatim>\<open>None\<close>. A byte is an
  8-bit word, a buffer a list of bytes, a dictionary an association list in insertion
  order. An exception that leaves a function is the left summand of its result.
\<close>

type_synonym bytes = "8 word list"

datatype py_error = IndexError

text \<open>
  The float that Python's true division \<^verbatim>\<open>a / b\<close> of two integers yields. The
  rounding to a double is not modelled: the value is kept as the two operands.
\<close>

datatype py_float = TrueDiv int int

datatype py_value = PStr string | PInt int | PFloat py_float | PNone

type_synonym py_dict = "(string \<times> py_value) list"

section \<open>Built-in operations\<close>

text \<open>\<^verbatim>\<open>data[i]\<close> for a non-negative index: IndexError when out of range.\<close>

definition getitem :: "bytes \<Rightarrow> nat \<Rightarrow> py_error + int" where
  "getitem data i = (if i < length data then Inr (uint (data ! i)) else Inl IndexError)"

text \<open>
  \<^verbatim>\<open>data[a:b]\<close> for non-negative bounds: the slice is clipped to the buffer and
  never raises.
\<close>

definition py_slice :: "bytes \<Rightarrow> nat \<Rightarrow> nat \<Rightarrow> bytes" where
  "py_slice data a b = take (b - a) (drop a data)"

text \<open>\<^verbatim>\<open>int.from_bytes(bs, 'little')\<close>: unsigned, least significant byte first.\<close>

fun from_bytes_little :: "bytes \<Rightarrow> int" where
  "from_bytes_little [] = 0"
| "from_bytes_little (b # bs) = uint b + 256 * from_bytes_little bs"

definition hex_digit :: "nat \<Rightarrow> char" where
  "hex_digit n = ''0123456789abcdef'' ! n"

text \<open>\<^verbatim>\<open>bytes.hex()\<close>: two lower-case hexadecimal digits for each byte.\<close>

definition hex_byte :: "8 word \<Rightarrow> string" where
  "hex_byte b = [hex_digit (unat b div 16), hex_digit (unat b mod 16)]"

definition bytes_hex :: "bytes \<Rightarrow> string" where
  "bytes_hex data = concat (map hex_byte data)"

text \<open>\<^verbatim>\<open>str(n)\<close> for an integer, as the f-strings format it: decimal digits.\<close>

function str_nat :: "nat \<Rightarrow> string" where
  "str_nat n = (if n < 10 then [hex_digit n] else str_nat (n div 10) @ [hex_digit (n mod 10)])"
  by pat_completeness auto
termination
  by (relation "measure id") auto

declare str_nat.simps [simp del]

definition str_int :: "int \<Rightarrow> string" where
  "str_int i = (if i < 0 then CHR ''-'' # str_nat (nat (- i)) else str_nat (nat i))"

text \<open>\<^verbatim>\<open>d.get(k, default)\<close> on a dictionary literal.\<close>

definition dict_get :: "('k \<times> 'v) list \<Rightarrow> 'k \<Rightarrow> 'v \<Rightarrow> 'v" where
  "dict_get d k dflt = (case map_of d k of Some v \<Rightarrow> v | None \<Rightarrow> dflt)"

text \<open>The f-string \<^verbatim>\<open>f"Unknown({instruction_type})"\<close>.\<close>

definition unknown_label :: "int \<Rightarrow> string" where
  "unknown_label instruction_type = ''Unknown('' @ str_int instruction_type @ '')''"

text \<open>
  A \<^verbatim>\<open>try: ... except: pass\<close> block followed by the statements \<open>rest\<close>. The body
  either raises (\<open>Inl\<close>), returns a value (\<open>Inr (Some v)\<close>) or ends without returning
  (\<open>Inr None\<close>); in the first and the last case control reaches \<open>rest\<close>.
\<close>

definition try_except_pass :: "(py_error + 'a option) \<Rightarrow> (py_error + 'a) \<Rightarrow> (py_error + 'a)" where
  "try_except_pass body rest =
     (case body of Inl e \<Rightarrow> rest | Inr None \<Rightarrow> rest | Inr (Some v) \<Rightarrow> Inr v)"

section \<open>Program identifiers\<close>

definition SYSTEM_PROGRAM_ID :: string where
  "SYSTEM_PROGRAM_ID = ''11111111111111111111111111111111''"

definition TOKEN_PROGRAM_ID :: string where
  "TOKEN_PROGRAM_ID = ''TokenkegQfeZyiNwAJbNbGKPFXCWuBvf9Ss623VQ5DA''"

definition TOKEN_2022_PROGRAM_ID :: string where
  "TOKEN_2022_PROGRAM_ID = ''TokenzQdBNbLqP5VEhdkAS6EPFLC1PHnBqCXEpPxuEb''"

definition RAYDIUM_AMM_V4_PROGRAM_ID :: string where
  "RAYDIUM_AMM_V4_PROGRAM_ID = ''675kPX9MHTjS2zt1qfr1NYHuzeLXfQM9H24wFSUt1Mp8''"

definition RAYDIUM_CLMM_PROGRAM_ID :: string where
  "RAYDIUM_CLMM_PROGRAM_ID = ''CAMMCzo5YL8w4VFF8KVHrK22GGUsp5VTaW7grrKgrWqK''"

definition RAYDIUM_CPMM_PROGRAM_ID :: string where
  "RAYDIUM_CPMM_PROGRAM_ID = ''CPMMoo8L3F4NbTegBCKVNunggL7H1ZpdTHKxQB5qKP1C''"

section \<open>The decoders of tx\_decode.py\<close>

definition invalid_data_length :: py_dict where
  "invalid_data_length = [(''error'', PStr ''Invalid data length'')]"

definition raw_result :: "string \<Rightarrow> bytes \<Rightarrow> py_dict" where
  "raw_result instruction_name data =
     [(''type'', PStr instruction_name), (''raw_data'', PStr (bytes_hex data))]"

subsection \<open>System program\<close>

definition SYSTEM_INSTRUCTIONS :: "(int \<times> string) list" where
  "SYSTEM_INSTRUCTIONS =
     [(2, ''Transfer''), (3, ''CreateAccount''), (8, ''CreateAccountWithSeed'')]"

definition decode_system_instruction :: "bytes \<Rightarrow> py_error + py_dict" where
  "decode_system_instruction data =
     (if length data < 4 then Inr invalid_data_length
      else
        let instruction_type = from_bytes_little (py_slice data 0 4);
            instruction_name =
              dict_get SYSTEM_INSTRUCTIONS instruction_type (unknown_label instruction_type)
        in if instruction_type = 2 then
             let lamports = from_bytes_little (py_slice data 4 12)
             in Inr [(''type'', PStr instruction_name),
                     (''lamports'', PInt lamports),
                     (''sol'', PFloat (TrueDiv lamports 1000000000))]
           else Inr (raw_result instruction_name data))"

subsection \<open>Token program and Token-2022 program\<close>

definition TOKEN_INSTRUCTIONS :: "(int \<times> string) list" where
  "TOKEN_INSTRUCTIONS =
     [(1, ''InitializeAccount''), (3, ''Transfer''), (7, ''MintTo''), (8, ''Burn''),
      (9, ''CloseAccount'')]"

definition decode_token_instruction :: "bytes \<Rightarrow> py_error + py_dict" where
  "decode_token_instruction data =
     (if length data < 1 then Inr invalid_data_length
      else case getitem data 0 of
        Inl e \<Rightarrow> Inl e
      | Inr instruction_type \<Rightarrow>
          let instruction_name =
                dict_get TOKEN_INSTRUCTIONS instruction_type (unknown_label instruction_type)
          in if instruction_type = 1 then
               Inr [(''type'', PStr instruction_name),
                    (''owner'', if length data \<ge> 33 then PStr (bytes_hex (py_slice data 1 33))
                                else PNone)]
             else if instruction_type = 3 then
               let amount = from_bytes_little (py_slice data 1 9)
               in Inr [(''type'', PStr instruction_name), (''amount'', PInt amount)]
             else Inr (raw_result instruction_name data))"

definition TOKEN_2022_INSTRUCTIONS :: "(int \<times> string) list" where
  "TOKEN_2022_INSTRUCTIONS =
     [(1, ''InitializeAccount''), (3, ''Transfer''), (7, ''MintTo''), (8, ''Burn''),
      (9, ''CloseAccount'')]"

definition decode_token_2022_instruction :: "bytes \<Rightarrow> py_error + py_dict" where
  "decode_token_2022_instruction data =
     (if length data < 1 then Inr invalid_data_length
      else case getitem data 0 of
        Inl e \<Rightarrow> Inl e
      | Inr instruction_type \<Rightarrow>
          let instruction_name =
                dict_get TOKEN_2022_INSTRUCTIONS instruction_type
                  (unknown_label instruction_type)
          in if instruction_type = 1 then
               Inr [(''type'', PStr instruction_name),
                    (''owner'', if length data \<ge> 33 then PStr (bytes_hex (py_slice data 1 33))
                                else PNone)]
             else if instruction_type = 3 then
               let amount = from_bytes_little (py_slice data 1 9)
               in Inr [(''type'', PStr instruction_name), (''amount'', PInt amount)]
             else Inr (raw_result instruction_name data))"

subsection \<open>Raydium AMM v4\<close>

definition RAYDIUM_AMM_INSTRUCTIONS :: "(int \<times> string) list" where
  "RAYDIUM_AMM_INSTRUCTIONS =
     [(1, ''Initialize''), (2, ''Swap''), (3, ''DepositAllTokenTypes''),
      (4, ''WithdrawAllTokenTypes''), (5, ''DepositSingleTokenTypeExactAmountIn''),
      (6, ''WithdrawSingleTokenTypeExactAmountOut'')]"

definition decode_raydium_amm_instruction :: "bytes \<Rightarrow> py_error + py_dict" where
  "decode_raydium_amm_instruction data =
     (if length data < 1 then Inr invalid_data_length
      else case getitem data 0 of
        Inl e \<Rightarrow> Inl e
      | Inr instruction_type \<Rightarrow>
          let instruction_name =
                dict_get RAYDIUM_AMM_INSTRUCTIONS instruction_type
                  (unknown_label instruction_type);
              rest = Inr (raw_result instruction_name data)
          in if instruction_type = 2 then
               try_except_pass
                 (let amount_in = from_bytes_little (py_slice data 1 9);
                      minimum_amount_out = from_bytes_little (py_slice data 9 17)
                  in Inr (Some [(''type'', PStr instruction_name),
                                (''amount_in'', PInt amount_in),
                                (''minimum_amount_out'', PInt minimum_amount_out)]))
                 rest
             else if instruction_type = 3 \<or> instruction_type = 4 then
               try_except_pass
                 (let max_coin_amount = from_bytes_little (py_slice data 1 9);
                      max_pc_amount = from_bytes_little (py_slice data 9 17)
                  in Inr (Some [(''type'', PStr instruction_name),
                                (''max_coin_amount'', PInt max_coin_amount),
                                (''max_pc_amount'', PInt max_pc_amount)]))
                 rest
             else rest)"

subsection \<open>Raydium concentrated liquidity\<close>

definition RAYDIUM_CLMM_INSTRUCTIONS :: "(int \<times> string) list" where
  "RAYDIUM_CLMM_INSTRUCTIONS =
     [(0, ''CreatePool''), (1, ''OpenPosition''), (2, ''ClosePosition''), (3, ''Swap''),
      (4, ''IncreasePosition''), (5, ''DecreasePosition'')]"

definition decode_raydium_clmm_instruction :: "bytes \<Rightarrow> py_error + py_dict" where
  "decode_raydium_clmm_instruction data =
     (if length data < 1 then Inr invalid_data_length
      else case getitem data 0 of
        Inl e \<Rightarrow> Inl e
      | Inr instruction_type \<Rightarrow>
          let instruction_name =
                dict_get RAYDIUM_CLMM_INSTRUCTIONS instruction_type
                  (unknown_label instruction_type);
              rest = Inr (raw_result instruction_name data)
          in if instruction_type = 3 then
               try_except_pass
                 (let amount_in = from_bytes_little (py_slice data 1 9);
                      amount_out_minimum = from_bytes_little (py_slice data 9 17);
                      sqrt_price_limit = from_bytes_little (py_slice data 17 25)
                  in Inr (Some [(''type'', PStr instruction_name),
                                (''amount_in'', PInt amount_in),
                                (''amount_out_minimum'', PInt amount_out_minimum),
                                (''sqrt_price_limit'', PInt sqrt_price_limit)]))
                 rest
             else rest)"

subsection \<open>Raydium constant product market maker\<close>

definition RAYDIUM_CPMM_INSTRUCTIONS :: "(int \<times> string) list" where
  "RAYDIUM_CPMM_INSTRUCTIONS =
     [(0, ''CreateAmmConfig''), (1, ''UpdateAmmConfig''), (2, ''UpdatePoolStatus''),
      (3, ''CollectProtocolFee''), (4, ''CollectFundFee''), (5, ''Initialize''),
      (6, ''Deposit''), (7, ''Withdraw''), (8, ''SwapBaseInput''), (9, ''SwapBaseOutput'')]"

text \<open>The \<^verbatim>\<open>if\<close>/\<^verbatim>\<open>elif\<close> chain inside the \<^verbatim>\<open>try\<close> block of the CPMM decoder.\<close>

definition cpmm_try_body :: "int \<Rightarrow> string \<Rightarrow> bytes \<Rightarrow> py_error + py_dict option" where
  "cpmm_try_body instruction_type instruction_name data =
     (if instruction_type = 5 then
        let init_amount_0 = from_bytes_little (py_slice data 1 9);
            init_amount_1 = from_bytes_little (py_slice data 9 17);
            open_time = from_bytes_little (py_slice data 17 25)
        in Inr (Some [(''type'', PStr instruction_name),
                      (''init_amount_0'', PInt init_amount_0),
                      (''init_amount_1'', PInt init_amount_1),
                      (''open_time'', PInt open_time)])
      else if instruction_type = 6 then
        let lp_token_amount = from_bytes_little (py_slice data 1 9);
            maximum_token_0_amount = from_bytes_little (py_slice data 9 17);
            maximum_token_1_amount = from_bytes_little (py_slice data 17 25)
        in Inr (Some [(''type'', PStr instruction_name),
                      (''lp_token_amount'', PInt lp_token_amount),
                      (''maximum_token_0_amount'', PInt maximum_token_0_amount),
                      (''maximum_token_1_amount'', PInt maximum_token_1_amount)])
      else if instruction_type = 7 then
        let lp_token_amount = from_bytes_little (py_slice data 1 9);
            minimum_token_0_amount = from_bytes_little (py_slice data 9 17);
            minimum_token_1_amount = from_bytes_little (py_slice data 17 25)
        in Inr (Some [(''type'', PStr instruction_name),
                      (''lp_token_amount'', PInt lp_token_amount),
                      (''minimum_token_0_amount'', PInt minimum_token_0_amount),
                      (''minimum_token_1_amount'', PInt minimum_token_1_amount)])
      else if instruction_type = 8 then
        let amount_in = from_bytes_little (py_slice data 1 9);
            minimum_amount_out = from_bytes_little (py_slice data 9 17)
        in Inr (Some [(''type'', PStr instruction_name),
                      (''amount_in'', PInt amount_in),
                      (''minimum_amount_out'', PInt minimum_amount_out)])
      else if instruction_type = 9 then
        let max_amount_in = from_bytes_little (py_slice data 1 9);
            amount_out = from_bytes_little (py_slice data 9 17)
        in Inr (Some [(''type'', PStr instruction_name),
                      (''max_amount_in'', PInt max_amount_in),
                      (''amount_out'', PInt amount_out)])
      else Inr None)"

definition decode_raydium_cpmm_instruction :: "bytes \<Rightarrow> py_error + py_dict" where
  "decode_raydium_cpmm_instruction data =
     (if length data < 1 then Inr invalid_data_length
      else case getitem data 8 of
        Inl e \<Rightarrow> Inl e
      | Inr instruction_type \<Rightarrow>
          let instruction_name =
                dict_get RAYDIUM_CPMM_INSTRUCTIONS instruction_type
                  (unknown_label instruction_type)
          in try_except_pass (cpmm_try_body instruction_type instruction_name data)
               (Inr (raw_result instruction_name data)))"

subsection \<open>Dispatch on the program identifier\<close>

text \<open>
  \<open>program_id_str\<close> is \<^verbatim>\<open>str(program_id)\<close>, the base58 text of the public key.
\<close>

definition decode_instruction_data :: "string \<Rightarrow> bytes \<Rightarrow> py_error + py_dict" where
  "decode_instruction_data program_id_str data =
     (if program_id_str = SYSTEM_PROGRAM_ID then decode_system_instruction data
      else if program_id_str = TOKEN_PROGRAM_ID then decode_token_instruction data
      else if program_id_str = TOKEN_2022_PROGRAM_ID then decode_token_2022_instruction data
      else if program_id_str = RAYDIUM_AMM_V4_PROGRAM_ID then decode_raydium_amm_instruction data
      else if program_id_str = RAYDIUM_CPMM_PROGRAM_ID then decode_raydium_cpmm_instruction data
      else if program_id_str = RAYDIUM_CLMM_PROGRAM_ID then decode_raydium_clmm_instruction data
      else Inr [(''program'', PStr program_id_str), (''raw_data'', PStr (bytes_hex data))])"

section \<open>Discriminators (util.py)\<close>

text \<open>
  A Python string is represented by the bytes of its UTF-8 encoding, one character of
  the model for each byte, so \<^verbatim>\<open>preimage.encode()\<close> reads each character as a byte.
\<close>

definition encode :: "string \<Rightarrow> bytes" where
  "encode s = map of_char s"

text \<open>
  \<^verbatim>\<open>hashlib.sha256(m).digest()\<close> belongs to the standard library and is a parameter
  of the model, \<open>sha256_digest\<close>. The default value of \<open>scope\<close> is \<open>''global''\<close>; the
  model takes the scope as an argument.
\<close>

definition get_instruction_discriminator ::
    "(bytes \<Rightarrow> bytes) \<Rightarrow> string \<Rightarrow> string \<Rightarrow> bytes" where
  "get_instruction_discriminator sha256_digest instruction_name scope =
     (let preimage = scope @ '':'' @ instruction_name;
          hash_bytes = sha256_digest (encode preimage);
          discriminator = py_slice hash_bytes 0 8
      in discriminator)"

text \<open>
  The result of \<^verbatim>\<open>create_discriminators\<close>: the dictionary with the two keys
  \<^verbatim>\<open>"func_disc"\<close> and \<^verbatim>\<open>"disc_func"\<close>, each holding a dictionary from strings to
  strings. An assignment \<^verbatim>\<open>d[k] = v\<close> replaces the value of a key that is present
  and appends a new key otherwise.
\<close>

record discriminators =
  func_disc :: "(string \<times> string) list"
  disc_func :: "(string \<times> string) list"

fun create_discriminators_loop ::
    "(bytes \<Rightarrow> bytes) \<Rightarrow> string \<Rightarrow> string list \<Rightarrow> discriminators \<Rightarrow> discriminators" where
  "create_discriminators_loop sha256_digest scope [] result = result"
| "create_discriminators_loop sha256_digest scope (method_name # method_names) result =
     (let disc = bytes_hex (get_instruction_discriminator sha256_digest method_name scope)
      in create_discriminators_loop sha256_digest scope method_names
           (result\<lparr>func_disc := AList.update method_name disc (func_disc result),
                    disc_func := AList.update disc method_name (disc_func result)\<rparr>))"

definition create_discriminators ::
    "(bytes \<Rightarrow> bytes) \<Rightarrow> string list \<Rightarrow> string \<Rightarrow> discriminators" where
  "create_discriminators sha256_digest method_names scope =
     create_discriminators_loop sha256_digest scope method_names
       \<lparr>func_disc = [], disc_func = []\<rparr>"

text \<open>
  A function with 32-byte results, used where an example needs a value for the
  parameter \<open>sha256_digest\<close>. It pads or cuts the message to 32 bytes and is not a
  hash function.
\<close>

definition example_digest :: "bytes \<Rightarrow> bytes" where
  "example_digest m = take 32 (m @ replicate 32 0)"

section \<open>Equality of the two token decoders\<close>

text \<open>
  C8. The decoder of the token program and the decoder of the token-2022 program
  return the same result on every byte buffer.
\<close>

theorem token_decoders_equal:
  "decode_token_instruction data = decode_token_2022_instruction data"
  unfolding decode_token_instruction_def decode_token_2022_instruction_def
    TOKEN_INSTRUCTIONS_def TOKEN_2022_INSTRUCTIONS_def
  by (rule refl)

section \<open>Little-endian integers and hexadecimal text\<close>

text \<open>The value of a byte string is the sum of its bytes weighted by powers of 256.\<close>

lemma from_bytes_little_sum:
  "from_bytes_little bs = (\<Sum>i<length bs. uint (bs ! i) * 256 ^ i)"
proof (induction bs)
  case Nil
  then show ?case by simp
next
  case (Cons b bs)
  have "(\<Sum>i<length (b # bs). uint ((b # bs) ! i) * 256 ^ i)
        = uint b + (\<Sum>i<length bs. uint (bs ! i) * 256 ^ Suc i)"
    unfolding length_Cons sum.lessThan_Suc_shift by simp
  also have "\<dots> = uint b + 256 * (\<Sum>i<length bs. uint (bs ! i) * 256 ^ i)"
    by (simp add: sum_distrib_left mult.assoc mult.left_commute)
  finally show ?case using Cons.IH by simp
qed

text \<open>A slice that lies inside the buffer reads the bytes at its own indices.\<close>

lemma from_bytes_little_slice:
  assumes "a \<le> b" "b \<le> length data"
  shows "from_bytes_little (py_slice data a b) = (\<Sum>i<b - a. uint (data ! (a + i)) * 256 ^ i)"
proof -
  have len: "length (py_slice data a b) = b - a"
    using assms by (simp add: py_slice_def)
  have "\<And>i. i < b - a \<Longrightarrow> py_slice data a b ! i = data ! (a + i)"
    using assms by (simp add: py_slice_def)
  then show ?thesis
    by (simp add: from_bytes_little_sum len)
qed

lemma bytes_hex_Nil: "bytes_hex [] = []"
  by (simp add: bytes_hex_def)

lemma length_bytes_hex: "length (bytes_hex data) = 2 * length data"
  by (induction data) (simp_all add: bytes_hex_def hex_byte_def)

lemma hex_digit_lower: "n < 16 \<Longrightarrow> hex_digit n \<in> set ''0123456789abcdef''"
  unfolding hex_digit_def by (rule nth_mem) simp

lemma hex_byte_lower: "set (hex_byte b) \<subseteq> set ''0123456789abcdef''"
proof -
  have two: "x \<in> S \<Longrightarrow> y \<in> S \<Longrightarrow> set [x, y] \<subseteq> S" for x y :: char and S
    by simp
  have "unat b < 256"
    using unsigned_less [of b, where 'a = nat] by simp
  then have "unat b div 16 < 16" "unat b mod 16 < 16"
    by (simp_all add: div_less_iff_less_mult)
  then show ?thesis
    unfolding hex_byte_def by (intro two hex_digit_lower)
qed

lemma bytes_hex_lower: "set (bytes_hex data) \<subseteq> set ''0123456789abcdef''"
  using hex_byte_lower by (auto simp add: bytes_hex_def simp del: set_simps)

section \<open>Indexing\<close>

lemma getitem_in_range: "i < length data \<Longrightarrow> getitem data i = Inr (uint (data ! i))"
  by (simp add: getitem_def)

lemma getitem_out_of_range: "length data \<le> i \<Longrightarrow> getitem data i = Inl IndexError"
  by (simp add: getitem_def)

section \<open>Buffers shorter than the opcode field\<close>

text \<open>
  Every decoder answers an empty buffer with the error dictionary, and the system
  decoder does so for every buffer of fewer than four bytes.
\<close>

lemma empty_buffer_error_dict:
  "decode_system_instruction [] = Inr invalid_data_length"
  "decode_token_instruction [] = Inr invalid_data_length"
  "decode_token_2022_instruction [] = Inr invalid_data_length"
  "decode_raydium_amm_instruction [] = Inr invalid_data_length"
  "decode_raydium_clmm_instruction [] = Inr invalid_data_length"
  "decode_raydium_cpmm_instruction [] = Inr invalid_data_length"
  by (simp_all add: decode_system_instruction_def decode_token_instruction_def
      decode_token_2022_instruction_def decode_raydium_amm_instruction_def
      decode_raydium_clmm_instruction_def decode_raydium_cpmm_instruction_def)

lemma system_short_buffer_error_dict:
  "length data < 4 \<Longrightarrow> decode_system_instruction data = Inr invalid_data_length"
  by (simp add: decode_system_instruction_def)

text \<open>
  The CPMM decoder guards against the empty buffer only and then reads index 8: on a
  buffer of one to eight bytes the read raises, outside the \<^verbatim>\<open>try\<close> block.
\<close>

lemma cpmm_short_buffer_raises:
  "1 \<le> length data \<Longrightarrow> length data \<le> 8 \<Longrightarrow>
   decode_raydium_cpmm_instruction data = Inl IndexError"
  by (auto simp add: decode_raydium_cpmm_instruction_def getitem_out_of_range)

text \<open>
  C1. A buffer shorter than the opcode field of its program is to give an error
  result and no exception. For the CPMM program the one-byte buffer \<open>00\<close> raises
  IndexError instead.
\<close>

theorem cpmm_one_byte_buffer_raises:
  "decode_instruction_data RAYDIUM_CPMM_PROGRAM_ID [0] = Inl IndexError"
  by (simp add: decode_instruction_data_def cpmm_short_buffer_raises
      SYSTEM_PROGRAM_ID_def TOKEN_PROGRAM_ID_def TOKEN_2022_PROGRAM_ID_def
      RAYDIUM_AMM_V4_PROGRAM_ID_def RAYDIUM_CPMM_PROGRAM_ID_def)

section \<open>Buffers truncated inside a field\<close>

text \<open>
  A buffer that holds the opcode but ends before the last field does not give the
  raw-hex result. For InitializeAccount the decoder checks the length and reports the
  owner as \<^verbatim>\<open>None\<close>. For the integer fields a slice of a short buffer is the bytes
  that are there and \<^verbatim>\<open>int.from_bytes\<close> accepts any length, so nothing raises and
  the \<^verbatim>\<open>except\<close> branches of the AMM, CLMM and CPMM decoders are never taken: the
  token decoder on \<open>03 e8\<close> returns an amount read from one byte, and the AMM decoder on
  \<open>02 01\<close> returns both fields, the second read from no byte at all.
\<close>

theorem truncated_buffer_not_raw_hex:
  "decode_token_instruction [1, 7] =
     Inr [(''type'', PStr ''InitializeAccount''), (''owner'', PNone)]
   \<and> decode_token_instruction [1, 7] \<noteq>
     Inr [(''type'', PStr ''InitializeAccount''), (''raw_data'', PStr (bytes_hex [1, 7]))]
   \<and> decode_token_instruction [3, 0xE8] =
     Inr [(''type'', PStr ''Transfer''), (''amount'', PInt 232)]
   \<and> decode_token_instruction [3, 0xE8] \<noteq>
     Inr [(''type'', PStr ''Transfer''), (''raw_data'', PStr (bytes_hex [3, 0xE8]))]
   \<and> decode_raydium_amm_instruction [2, 1] =
       Inr [(''type'', PStr ''Swap''), (''amount_in'', PInt 1),
            (''minimum_amount_out'', PInt 0)]"
  by (simp add: decode_token_instruction_def decode_raydium_amm_instruction_def getitem_def
      dict_get_def TOKEN_INSTRUCTIONS_def RAYDIUM_AMM_INSTRUCTIONS_def py_slice_def
      try_except_pass_def)

text \<open>
  C2, as amended. The owner field is decoded all or nothing, and a truncated buffer
  gives an explicit \<^verbatim>\<open>None\<close>, not the raw-hex result: for both token decoders and
  every buffer whose byte 0 is 1, the result is InitializeAccount with owner
  \<^verbatim>\<open>None\<close> when the buffer has fewer than 33 bytes, and with the 64 hexadecimal
  digits of the bytes at indices 1 to 32 otherwise. An owner is never read from fewer
  than 32 bytes.
\<close>

theorem owner_all_or_nothing:
  assumes "1 \<le> length data" and "data ! 0 = 1"
  shows "(length data < 33 \<longrightarrow>
            decode_token_instruction data =
              Inr [(''type'', PStr ''InitializeAccount''), (''owner'', PNone)]
          \<and> decode_token_2022_instruction data =
              Inr [(''type'', PStr ''InitializeAccount''), (''owner'', PNone)])
       \<and> (33 \<le> length data \<longrightarrow>
            decode_token_instruction data =
              Inr [(''type'', PStr ''InitializeAccount''),
                   (''owner'', PStr (bytes_hex (take 32 (drop 1 data))))]
          \<and> decode_token_2022_instruction data =
              Inr [(''type'', PStr ''InitializeAccount''),
                   (''owner'', PStr (bytes_hex (take 32 (drop 1 data))))]
          \<and> length (bytes_hex (take 32 (drop 1 data))) = 64)"
proof -
  have ne: "data \<noteq> []" "0 < length data"
    using assms(1) by auto
  show ?thesis
    using assms ne
    by (simp add: decode_token_instruction_def decode_token_2022_instruction_def
        getitem_in_range dict_get_def TOKEN_INSTRUCTIONS_def TOKEN_2022_INSTRUCTIONS_def
        py_slice_def length_bytes_hex)
qed

theorem owner_all_or_nothing_witness:
  "(1 \<le> length [1, 7 :: 8 word] \<and> [1, 7 :: 8 word] ! 0 = 1 \<and> length [1, 7 :: 8 word] < 33)
   \<and> decode_token_instruction [1, 7] =
        Inr [(''type'', PStr ''InitializeAccount''), (''owner'', PNone)]
   \<and> decode_token_2022_instruction [1, 7] =
        Inr [(''type'', PStr ''InitializeAccount''), (''owner'', PNone)]
   \<and> (1 \<le> length (1 # replicate 32 (0xAB :: 8 word))
      \<and> (1 # replicate 32 (0xAB :: 8 word)) ! 0 = 1
      \<and> 33 \<le> length (1 # replicate 32 (0xAB :: 8 word)))
   \<and> decode_token_instruction (1 # replicate 32 0xAB) =
        Inr [(''type'', PStr ''InitializeAccount''),
             (''owner'', PStr (bytes_hex (replicate 32 0xAB)))]
   \<and> decode_token_2022_instruction (1 # replicate 32 0xAB) =
        Inr [(''type'', PStr ''InitializeAccount''),
             (''owner'', PStr (bytes_hex (replicate 32 0xAB)))]
   \<and> length (bytes_hex (replicate 32 (0xAB :: 8 word))) = 64"
  using owner_all_or_nothing [of "[1, 7]"]
    owner_all_or_nothing [of "1 # replicate 32 0xAB"]
  by simp

section \<open>InitializeAccount of the token program\<close>

text \<open>
  C10. When byte 0 is 1, the token decoder returns the name InitializeAccount with
  an owner entry: \<^verbatim>\<open>None\<close> for a buffer of 1 to 32 bytes, the hex text of bytes 1 to
  32 for a buffer of at least 33 bytes.
\<close>

theorem initialize_account_owner:
  "(1 \<le> length data \<and> length data \<le> 32 \<and> data ! 0 = 1 \<longrightarrow>
      decode_token_instruction data =
        Inr [(''type'', PStr ''InitializeAccount''), (''owner'', PNone)])
   \<and> (33 \<le> length data \<and> data ! 0 = 1 \<longrightarrow>
      decode_token_instruction data =
        Inr [(''type'', PStr ''InitializeAccount''),
             (''owner'', PStr (bytes_hex (take 32 (drop 1 data))))])"
  by (simp add: decode_token_instruction_def getitem_in_range dict_get_def
      TOKEN_INSTRUCTIONS_def py_slice_def)

theorem initialize_account_owner_witness:
  "(1 \<le> length [1, 7 :: 8 word] \<and> length [1, 7 :: 8 word] \<le> 32 \<and> [1, 7 :: 8 word] ! 0 = 1)
   \<and> decode_token_instruction [1, 7] =
        Inr [(''type'', PStr ''InitializeAccount''), (''owner'', PNone)]
   \<and> (33 \<le> length (1 # replicate 32 (0xAB :: 8 word)) \<and> (1 # replicate 32 (0xAB :: 8 word)) ! 0 = 1)
   \<and> decode_token_instruction (1 # replicate 32 0xAB) =
        Inr [(''type'', PStr ''InitializeAccount''),
             (''owner'', PStr (bytes_hex (replicate 32 0xAB)))]"
  using initialize_account_owner [of "[1, 7]"]
    initialize_account_owner [of "1 # replicate 32 0xAB"]
  by simp

section \<open>Unknown programs\<close>

lemmas program_ids = SYSTEM_PROGRAM_ID_def TOKEN_PROGRAM_ID_def TOKEN_2022_PROGRAM_ID_def
    RAYDIUM_AMM_V4_PROGRAM_ID_def RAYDIUM_CPMM_PROGRAM_ID_def RAYDIUM_CLMM_PROGRAM_ID_def

text \<open>
  C3. For a program identifier that is none of the six dispatched ones, every buffer
  gives the dictionary with the identifier and the lower-case hexadecimal text of the
  buffer, two digits for each byte; the empty buffer gives the empty text.
\<close>

theorem unknown_program_raw_hex:
  assumes "program_id_str \<notin> {SYSTEM_PROGRAM_ID, TOKEN_PROGRAM_ID, TOKEN_2022_PROGRAM_ID,
             RAYDIUM_AMM_V4_PROGRAM_ID, RAYDIUM_CPMM_PROGRAM_ID, RAYDIUM_CLMM_PROGRAM_ID}"
  shows "decode_instruction_data program_id_str data =
           Inr [(''program'', PStr program_id_str), (''raw_data'', PStr (bytes_hex data))]
         \<and> length (bytes_hex data) = 2 * length data
         \<and> set (bytes_hex data) \<subseteq> set ''0123456789abcdef''
         \<and> decode_instruction_data program_id_str [] =
           Inr [(''program'', PStr program_id_str), (''raw_data'', PStr '''')]"
  using assms
  by (simp add: decode_instruction_data_def length_bytes_hex bytes_hex_lower bytes_hex_Nil
      del: set_simps)

theorem unknown_program_raw_hex_witness:
  "''ATokenGPvbdGVxr1b2hvZbsiqW5xWH25efTNsLJA8knL'' \<notin>
       {SYSTEM_PROGRAM_ID, TOKEN_PROGRAM_ID, TOKEN_2022_PROGRAM_ID,
        RAYDIUM_AMM_V4_PROGRAM_ID, RAYDIUM_CPMM_PROGRAM_ID, RAYDIUM_CLMM_PROGRAM_ID}
   \<and> decode_instruction_data ''ATokenGPvbdGVxr1b2hvZbsiqW5xWH25efTNsLJA8knL'' [0x01, 0xAB, 0xF0] =
       Inr [(''program'', PStr ''ATokenGPvbdGVxr1b2hvZbsiqW5xWH25efTNsLJA8knL''),
            (''raw_data'', PStr ''01abf0'')]
   \<and> decode_instruction_data ''ATokenGPvbdGVxr1b2hvZbsiqW5xWH25efTNsLJA8knL'' [] =
       Inr [(''program'', PStr ''ATokenGPvbdGVxr1b2hvZbsiqW5xWH25efTNsLJA8knL''),
            (''raw_data'', PStr '''')]"
proof -
  have h: "''ATokenGPvbdGVxr1b2hvZbsiqW5xWH25efTNsLJA8knL'' \<notin>
       {SYSTEM_PROGRAM_ID, TOKEN_PROGRAM_ID, TOKEN_2022_PROGRAM_ID,
        RAYDIUM_AMM_V4_PROGRAM_ID, RAYDIUM_CPMM_PROGRAM_ID, RAYDIUM_CLMM_PROGRAM_ID}"
    by (simp add: program_ids)
  have x: "bytes_hex [0x01, 0xAB, 0xF0] = ''01abf0''"
    by (simp add: bytes_hex_def hex_byte_def hex_digit_def)
  show ?thesis
    using h unknown_program_raw_hex [OF h, of "[0x01, 0xAB, 0xF0]"] by (simp only: x simp_thms)
qed

section \<open>The CPMM decoder on buffers that hold the opcode\<close>

lemma cpmm_in_range:
  "9 \<le> length data \<Longrightarrow>
   decode_raydium_cpmm_instruction data =
     (let instruction_type = uint (data ! 8);
          instruction_name = dict_get RAYDIUM_CPMM_INSTRUCTIONS instruction_type
                               (unknown_label instruction_type)
      in try_except_pass (cpmm_try_body instruction_type instruction_name data)
           (Inr (raw_result instruction_name data)))"
  by (auto simp add: decode_raydium_cpmm_instruction_def getitem_in_range Let_def)

text \<open>A byte string of length \<open>n\<close> has a value below \<open>256\<^sup>n\<close>.\<close>

lemma from_bytes_little_bounds:
  "0 \<le> from_bytes_little bs \<and> from_bytes_little bs < 256 ^ length bs"
proof (induction bs)
  case Nil
  then show ?case by simp
next
  case (Cons b bs)
  have b: "0 \<le> uint b" "uint b < 256"
    using uint_lt2p [of b] by simp_all
  from Cons.IH have "from_bytes_little bs + 1 \<le> 256 ^ length bs" by simp
  then have "256 * (from_bytes_little bs + 1) \<le> 256 * 256 ^ length bs"
    by (simp only: mult_le_cancel_left_pos) 
  with b Cons.IH show ?case by (simp add: algebra_simps)
qed


lemma cpmm_type_entry:
  assumes "9 \<le> length data"
  shows "\<exists>fields. decode_raydium_cpmm_instruction data =
           Inr ((''type'', PStr (dict_get RAYDIUM_CPMM_INSTRUCTIONS (uint (data ! 8))
                                   (unknown_label (uint (data ! 8))))) # fields)"
  using assms
  by (simp add: cpmm_in_range cpmm_try_body_def try_except_pass_def raw_result_def Let_def)

text \<open>
  C4. On a buffer of at least nine bytes the CPMM decoder takes the opcode from the
  byte at index 8: the name it reports is the one the table gives for that byte, and
  when that byte is 5 the result is the Initialize dictionary, whatever byte 0 is.
\<close>

theorem cpmm_opcode_read_at_index_8:
  "(9 \<le> length data \<longrightarrow>
     (\<exists>fields. decode_raydium_cpmm_instruction data =
        Inr ((''type'', PStr (dict_get RAYDIUM_CPMM_INSTRUCTIONS (uint (data ! 8))
                                (unknown_label (uint (data ! 8))))) # fields)))
   \<and> (9 \<le> length data \<and> data ! 8 = 5 \<longrightarrow>
     decode_raydium_cpmm_instruction data =
       Inr [(''type'', PStr ''Initialize''),
            (''init_amount_0'', PInt (from_bytes_little (py_slice data 1 9))),
            (''init_amount_1'', PInt (from_bytes_little (py_slice data 9 17))),
            (''open_time'', PInt (from_bytes_little (py_slice data 17 25)))])"
  using cpmm_type_entry [of data]
  by (simp add: cpmm_in_range cpmm_try_body_def try_except_pass_def dict_get_def
      RAYDIUM_CPMM_INSTRUCTIONS_def)

theorem cpmm_opcode_read_at_index_8_witness:
  "(9 \<le> length [9, 0, 0, 0, 0, 0, 0, 0, 5 :: 8 word] \<and> [9, 0, 0, 0, 0, 0, 0, 0, 5 :: 8 word] ! 8 = 5)
   \<and> decode_raydium_cpmm_instruction [9, 0, 0, 0, 0, 0, 0, 0, 5] =
       Inr [(''type'', PStr ''Initialize''),
            (''init_amount_0'', PInt 360287970189639680),
            (''init_amount_1'', PInt 0),
            (''open_time'', PInt 0)]"
  using cpmm_opcode_read_at_index_8 [of "[9, 0, 0, 0, 0, 0, 0, 0, 5]"]
  by (simp add: py_slice_def)

text \<open>
  C9. The fields of the CPMM decoder start at index 1 and so run over the opcode byte
  at index 8. On a buffer of at least 25 bytes whose byte 8 is 6 (Deposit),
  \<open>lp_token_amount\<close> is the little-endian value of the bytes at indices 1 to 8, and
  its most significant byte is the opcode byte 6.
\<close>

theorem cpmm_deposit_fields_overlap_opcode:
  assumes "25 \<le> length data" "data ! 8 = 6"
  shows "decode_raydium_cpmm_instruction data =
       Inr [(''type'', PStr ''Deposit''),
            (''lp_token_amount'', PInt (\<Sum>i<8. uint (data ! (1 + i)) * 256 ^ i)),
            (''maximum_token_0_amount'', PInt (\<Sum>i<8. uint (data ! (9 + i)) * 256 ^ i)),
            (''maximum_token_1_amount'', PInt (\<Sum>i<8. uint (data ! (17 + i)) * 256 ^ i))]
     \<and> (\<Sum>i<8. uint (data ! (1 + i)) * 256 ^ i) div 256 ^ 7 = 6"
proof -
  have s: "from_bytes_little (py_slice data 1 9) = (\<Sum>i<8. uint (data ! (1 + i)) * 256 ^ i)"
       "from_bytes_little (py_slice data 9 17) = (\<Sum>i<8. uint (data ! (9 + i)) * 256 ^ i)"
       "from_bytes_little (py_slice data 17 25) = (\<Sum>i<8. uint (data ! (17 + i)) * 256 ^ i)"
    using assms(1)
      from_bytes_little_slice [of 1 9 data] from_bytes_little_slice [of 9 17 data]
      from_bytes_little_slice [of 17 25 data]
    by simp_all
  have dec: "decode_raydium_cpmm_instruction data =
       Inr [(''type'', PStr ''Deposit''),
            (''lp_token_amount'', PInt (from_bytes_little (py_slice data 1 9))),
            (''maximum_token_0_amount'', PInt (from_bytes_little (py_slice data 9 17))),
            (''maximum_token_1_amount'', PInt (from_bytes_little (py_slice data 17 25)))]"
    using assms
    by (simp add: cpmm_in_range cpmm_try_body_def try_except_pass_def dict_get_def
        RAYDIUM_CPMM_INSTRUCTIONS_def)
  have low: "(\<Sum>i<7. uint (data ! (1 + i)) * 256 ^ i) < 256 ^ 7" (is "?L < _")
  proof -
    have "?L = from_bytes_little (py_slice data 1 8)"
      using assms(1) from_bytes_little_slice [of 1 8 data] by simp
    also have "\<dots> < 256 ^ length (py_slice data 1 8)"
      using from_bytes_little_bounds by blast
    finally show ?thesis using assms(1) by (simp add: py_slice_def)
  qed
  have nonneg: "0 \<le> (\<Sum>i<7. uint (data ! (1 + i)) * 256 ^ i)"
    by (intro sum_nonneg) simp
  have split: "(\<Sum>i<8. uint (data ! (1 + i)) * 256 ^ i)
                 = (\<Sum>i<7. uint (data ! (1 + i)) * 256 ^ i) + 6 * 256 ^ 7"
  proof -
    have "(\<Sum>i<Suc 7. uint (data ! (1 + i)) * 256 ^ i)
                 = (\<Sum>i<7. uint (data ! (1 + i)) * 256 ^ i) + uint (data ! 8) * 256 ^ 7"
      unfolding sum.lessThan_Suc by simp
    then show ?thesis using assms(2) by simp
  qed
  have "(\<Sum>i<8. uint (data ! (1 + i)) * 256 ^ i) div 256 ^ 7 = 6"
    unfolding split using low nonneg by simp
  then show ?thesis using dec s by simp
qed

text \<open>Sums over four and eight indices, written out.\<close>

lemma sum_lessThan_4: "(\<Sum>i<4. f i) = f 0 + f 1 + f 2 + f (3::nat)" for f :: "nat \<Rightarrow> int"
proof -
  have "{..<4::nat} = {0, 1, 2, 3}" by auto
  then show ?thesis by simp
qed

lemma sum_lessThan_8:
  "(\<Sum>i<8. f i) = f 0 + f 1 + f 2 + f 3 + f 4 + f 5 + f 6 + f (7::nat)" for f :: "nat \<Rightarrow> int"
proof -
  have "{..<8::nat} = {0, 1, 2, 3, 4, 5, 6, 7}" by auto
  then show ?thesis by simp
qed

theorem cpmm_deposit_fields_overlap_opcode_witness:
  "(25 \<le> length [0, 1, 0, 0, 0, 0, 0, 0, 6, 2, 0, 0, 0, 0, 0, 0, 0, 3, 0, 0, 0, 0, 0, 0, 0 :: 8 word]
    \<and> [0, 1, 0, 0, 0, 0, 0, 0, 6, 2, 0, 0, 0, 0, 0, 0, 0, 3, 0, 0, 0, 0, 0, 0, 0 :: 8 word] ! 8 = 6)
   \<and> decode_raydium_cpmm_instruction
        [0, 1, 0, 0, 0, 0, 0, 0, 6, 2, 0, 0, 0, 0, 0, 0, 0, 3, 0, 0, 0, 0, 0, 0, 0] =
       Inr [(''type'', PStr ''Deposit''),
            (''lp_token_amount'', PInt 432345564227567617),
            (''maximum_token_0_amount'', PInt 2),
            (''maximum_token_1_amount'', PInt 3)]
   \<and> (432345564227567617 :: int) div 256 ^ 7 = 6"
  using cpmm_deposit_fields_overlap_opcode
    [of "[0, 1, 0, 0, 0, 0, 0, 0, 6, 2, 0, 0, 0, 0, 0, 0, 0, 3, 0, 0, 0, 0, 0, 0, 0]"]
  by (simp add: sum_lessThan_4 sum_lessThan_8)

section \<open>Transfers of exact length\<close>

lemma system_in_range:
  "4 \<le> length data \<Longrightarrow>
   decode_system_instruction data =
     (let instruction_type = from_bytes_little (py_slice data 0 4);
          instruction_name =
            dict_get SYSTEM_INSTRUCTIONS instruction_type (unknown_label instruction_type)
      in if instruction_type = 2 then
           let lamports = from_bytes_little (py_slice data 4 12)
           in Inr [(''type'', PStr instruction_name),
                   (''lamports'', PInt lamports),
                   (''sol'', PFloat (TrueDiv lamports 1000000000))]
         else Inr (raw_result instruction_name data))"
  by (simp add: decode_system_instruction_def)

text \<open>
  C6. The token decoder on the nine bytes \<open>03 e8 03 00 00 00 00 00 00\<close> returns
  Transfer with amount 1000. The system decoder, on a buffer of at least twelve bytes
  whose first four bytes are the little-endian opcode 2, returns Transfer with the
  lamports read little-endian from bytes 4 to 11 and with \<open>sol\<close>, the true division
  of that integer by \<open>10\<^sup>9\<close>.
\<close>

theorem transfer_exact_length:
  "decode_token_instruction [0x03, 0xE8, 0x03, 0x00, 0x00, 0x00, 0x00, 0x00, 0x00] =
     Inr [(''type'', PStr ''Transfer''), (''amount'', PInt 1000)]
   \<and> (12 \<le> length data \<and> (\<Sum>i<4. uint (data ! i) * 256 ^ i) = 2 \<longrightarrow>
        decode_system_instruction data =
          Inr [(''type'', PStr ''Transfer''),
               (''lamports'', PInt (\<Sum>i<8. uint (data ! (4 + i)) * 256 ^ i)),
               (''sol'', PFloat (TrueDiv (\<Sum>i<8. uint (data ! (4 + i)) * 256 ^ i) (10 ^ 9)))])"
proof -
  have tok: "decode_token_instruction [0x03, 0xE8, 0x03, 0x00, 0x00, 0x00, 0x00, 0x00, 0x00] =
     Inr [(''type'', PStr ''Transfer''), (''amount'', PInt 1000)]"
    by (simp add: decode_token_instruction_def getitem_def dict_get_def TOKEN_INSTRUCTIONS_def
        py_slice_def)
  have sys: "decode_system_instruction data =
          Inr [(''type'', PStr ''Transfer''),
               (''lamports'', PInt (\<Sum>i<8. uint (data ! (4 + i)) * 256 ^ i)),
               (''sol'', PFloat (TrueDiv (\<Sum>i<8. uint (data ! (4 + i)) * 256 ^ i) (10 ^ 9)))]"
    if len: "12 \<le> length data" and op: "(\<Sum>i<4. uint (data ! i) * 256 ^ i) = 2"
  proof -
    have "from_bytes_little (py_slice data 0 4) = 2"
      using len op from_bytes_little_slice [of 0 4 data] by simp
    moreover have "from_bytes_little (py_slice data 4 12) = (\<Sum>i<8. uint (data ! (4 + i)) * 256 ^ i)"
      using len from_bytes_little_slice [of 4 12 data] by simp
    ultimately show ?thesis
      using len by (simp add: system_in_range dict_get_def SYSTEM_INSTRUCTIONS_def Let_def)
  qed
  show ?thesis using tok sys by blast
qed

theorem transfer_exact_length_witness:
  "(12 \<le> length [2, 0, 0, 0, 0, 0xCA, 0x9A, 0x3B, 0, 0, 0, 0 :: 8 word]
    \<and> (\<Sum>i<4. uint ([2, 0, 0, 0, 0, 0xCA, 0x9A, 0x3B, 0, 0, 0, 0 :: 8 word] ! i) * 256 ^ i) = 2)
   \<and> decode_system_instruction [2, 0, 0, 0, 0, 0xCA, 0x9A, 0x3B, 0, 0, 0, 0] =
          Inr [(''type'', PStr ''Transfer''),
               (''lamports'', PInt 1000000000),
               (''sol'', PFloat (TrueDiv 1000000000 1000000000))]"
  using transfer_exact_length [of "[2, 0, 0, 0, 0, 0xCA, 0x9A, 0x3B, 0, 0, 0, 0]"]
  by (simp add: sum_lessThan_4 sum_lessThan_8)

section \<open>Discriminator maps\<close>

text \<open>
  The loop of \<^verbatim>\<open>create_discriminators\<close> updates the two dictionaries independently;
  each is a left fold of updates over the method names.
\<close>

lemma loop_keys:
  assumes "distinct (map f names)" "set (map f names) \<inter> set (map fst al) = {}"
  shows "map fst (foldl (\<lambda>al n. AList.update (f n) (g n) al) al names) = map fst al @ map f names"
  using assms
proof (induction names arbitrary: al)
  case Nil
  then show ?case by simp
next
  case (Cons n names)
  have k: "map fst (AList.update (f n) (g n) al) = map fst al @ [f n]"
    using Cons.prems(2) by (auto simp add: update_keys)
  have "set (map f names) \<inter> set (map fst (AList.update (f n) (g n) al)) = {}"
    unfolding k using Cons.prems by auto
  with Cons.IH [of "AList.update (f n) (g n) al"] Cons.prems(1) k show ?case by simp
qed

lemma loop_map_of:
  assumes "distinct (map f names)" "n \<in> set names"
  shows "map_of (foldl (\<lambda>al n. AList.update (f n) (g n) al) al names) (f n) = Some (g n)"
  using assms
proof (induction names arbitrary: al)
  case Nil
  then show ?case by simp
next
  case (Cons m names)
  show ?case
  proof (cases "n \<in> set names")
    case True
    with Cons show ?thesis by simp
  next
    case False
    with Cons.prems have nm: "n = m" by simp
    have notin: "f m \<notin> f ` set names" using Cons.prems(1) by simp
    have keep: "map_of (foldl (\<lambda>al n. AList.update (f n) (g n) al) bl names) k = map_of bl k"
      if "k \<notin> f ` set names" for bl k
      using that by (induction names arbitrary: bl) (simp_all add: update_conv')
    show ?thesis
      unfolding nm using keep [OF notin] by (simp add: update_conv')
  qed
qed

lemma loop_func_disc:
  "func_disc (create_discriminators_loop H scope names r) =
     foldl (\<lambda>al n. AList.update n (bytes_hex (get_instruction_discriminator H n scope)) al)
       (func_disc r) names"
  by (induction names arbitrary: r) (simp_all add: Let_def)

lemma loop_disc_func:
  "disc_func (create_discriminators_loop H scope names r) =
     foldl (\<lambda>al n. AList.update (bytes_hex (get_instruction_discriminator H n scope)) n al)
       (disc_func r) names"
  by (induction names arbitrary: r) (simp_all add: Let_def)

text \<open>
  C7. The discriminator is the first eight bytes of the digest of the UTF-8 text
  \<open>scope:instruction_name\<close>, a function of its two arguments. For a list of distinct
  method names whose hex discriminators are distinct too, each of the two maps built
  by \<^verbatim>\<open>create_discriminators\<close> has as many entries as there are names, the
  forward map sends each name to its hex discriminator and the inverse map sends that
  discriminator back to the name.
\<close>

theorem discriminators_round_trip:
  assumes digest_length: "\<And>m. length (sha256_digest m) = 32"
    and names_distinct: "distinct method_names"
    and discs_distinct:
      "distinct (map (\<lambda>n. bytes_hex (get_instruction_discriminator sha256_digest n scope))
                  method_names)"
  shows "get_instruction_discriminator sha256_digest instruction_name scope =
           take 8 (sha256_digest (encode (scope @ '':'' @ instruction_name)))
       \<and> length (get_instruction_discriminator sha256_digest instruction_name scope) = 8
       \<and> length (func_disc (create_discriminators sha256_digest method_names scope)) =
           length method_names
       \<and> length (disc_func (create_discriminators sha256_digest method_names scope)) =
           length method_names
       \<and> (\<forall>n \<in> set method_names.
            map_of (func_disc (create_discriminators sha256_digest method_names scope)) n =
              Some (bytes_hex (get_instruction_discriminator sha256_digest n scope))
          \<and> map_of (disc_func (create_discriminators sha256_digest method_names scope))
              (bytes_hex (get_instruction_discriminator sha256_digest n scope)) = Some n)"
proof -
  let ?d = "\<lambda>n. bytes_hex (get_instruction_discriminator sha256_digest n scope)"
  let ?r = "create_discriminators sha256_digest method_names scope"
  have first8: "get_instruction_discriminator sha256_digest instruction_name scope =
           take 8 (sha256_digest (encode (scope @ '':'' @ instruction_name)))"
    by (simp add: get_instruction_discriminator_def py_slice_def)
  have len8: "length (get_instruction_discriminator sha256_digest instruction_name scope) = 8"
    unfolding first8 by (simp add: digest_length)
  have f: "func_disc ?r = foldl (\<lambda>al n. AList.update n (?d n) al) [] method_names"
    by (simp add: create_discriminators_def loop_func_disc)
  have d: "disc_func ?r = foldl (\<lambda>al n. AList.update (?d n) n al) [] method_names"
    by (simp add: create_discriminators_def loop_disc_func)
  have "map fst (func_disc ?r) = method_names"
    unfolding f using loop_keys [of "\<lambda>n. n" method_names "[]" ?d] names_distinct by simp
  then have lf: "length (func_disc ?r) = length method_names"
    by (metis length_map)
  have "map fst (disc_func ?r) = map ?d method_names"
    unfolding d using loop_keys [of ?d method_names "[]" "\<lambda>n. n"] discs_distinct by simp
  then have ld: "length (disc_func ?r) = length method_names"
    by (metis length_map)
  have fwd: "map_of (func_disc ?r) n = Some (?d n)" if "n \<in> set method_names" for n
    unfolding f using loop_map_of [of "\<lambda>n. n" method_names n ?d "[]"] names_distinct that
    by simp
  have bwd: "map_of (disc_func ?r) (?d n) = Some n" if "n \<in> set method_names" for n
    unfolding d using loop_map_of [of ?d method_names n "\<lambda>n. n" "[]"] discs_distinct that
    by simp
  show ?thesis
    using first8 len8 lf ld fwd bwd by blast
qed

lemma example_disc_a: "bytes_hex (get_instruction_discriminator example_digest ''a'' ''global'') = ''676c6f62616c3a61''"
  by (simp add: get_instruction_discriminator_def example_digest_def encode_def py_slice_def
      bytes_hex_def hex_byte_def hex_digit_def)

lemma example_disc_b: "bytes_hex (get_instruction_discriminator example_digest ''b'' ''global'') = ''676c6f62616c3a62''"
  by (simp add: get_instruction_discriminator_def example_digest_def encode_def py_slice_def
      bytes_hex_def hex_byte_def hex_digit_def)

theorem discriminators_round_trip_witness:
  "(\<forall>m. length (example_digest m) = 32)
   \<and> distinct [''a'', ''b'']
   \<and> distinct (map (\<lambda>n. bytes_hex (get_instruction_discriminator example_digest n ''global''))
                 [''a'', ''b''])
   \<and> get_instruction_discriminator example_digest ''a'' ''global'' =
        take 8 (example_digest (encode ''global:a''))
   \<and> length (get_instruction_discriminator example_digest ''a'' ''global'') = 8
   \<and> length (func_disc (create_discriminators example_digest [''a'', ''b''] ''global'')) = 2
   \<and> length (disc_func (create_discriminators example_digest [''a'', ''b''] ''global'')) = 2
   \<and> map_of (func_disc (create_discriminators example_digest [''a'', ''b''] ''global'')) ''a'' =
        Some ''676c6f62616c3a61''
   \<and> map_of (disc_func (create_discriminators example_digest [''a'', ''b''] ''global''))
        ''676c6f62616c3a61'' = Some ''a''
   \<and> map_of (func_disc (create_discriminators example_digest [''a'', ''b''] ''global'')) ''b'' =
        Some ''676c6f62616c3a62''
   \<and> map_of (disc_func (create_discriminators example_digest [''a'', ''b''] ''global''))
        ''676c6f62616c3a62'' = Some ''b''"
proof -
  have h1: "\<And>m. length (example_digest m) = 32"
    by (simp add: example_digest_def)
  have h2: "distinct [''a'', ''b'']"
    by simp
  have h3: "distinct (map (\<lambda>n. bytes_hex (get_instruction_discriminator example_digest n ''global''))
                 [''a'', ''b''])"
    by (simp add: example_disc_a example_disc_b)
  show ?thesis
    using h1 h2 h3
      discriminators_round_trip [of example_digest "[''a'', ''b'']" "''global''" "''a''",
        OF h1 h2 h3]
    by (simp add: example_disc_a example_disc_b)
qed

section \<open>Decimal text of an opcode\<close>

text \<open>
  The text of a natural number consists of decimal digits, and reading it back digit
  by digit gives the number.
\<close>

lemma digit_code: "n < 10 \<Longrightarrow> of_char (hex_digit n) = 48 + n"
proof -
  assume "n < 10"
  then have "n \<in> {0, 1, 2, 3, 4, 5, 6, 7, 8, 9}" by auto
  then show ?thesis by (auto simp add: hex_digit_def)
qed

lemma digit_decimal: "n < 10 \<Longrightarrow> hex_digit n \<in> set ''0123456789''"
proof -
  assume "n < 10"
  then have "n \<in> {0, 1, 2, 3, 4, 5, 6, 7, 8, 9}" by auto
  then show ?thesis by (auto simp add: hex_digit_def)
qed

lemma str_nat_digits: "set (str_nat n) \<subseteq> set ''0123456789''"
proof (induction n rule: str_nat.induct)
  case (1 n)
  have one: "x \<in> S \<Longrightarrow> set [x] \<subseteq> S" for x :: char and S
    by simp
  have snoc: "set xs \<subseteq> S \<Longrightarrow> x \<in> S \<Longrightarrow> set (xs @ [x]) \<subseteq> S" for x :: char and xs S
    by simp
  show ?case
  proof (cases "n < 10")
    case True
    then have "str_nat n = [hex_digit n]"
      by (simp add: str_nat.simps [of n])
    then show ?thesis
      using one [OF digit_decimal [OF True]] by (simp only:)
  next
    case False
    then have eq: "str_nat n = str_nat (n div 10) @ [hex_digit (n mod 10)]"
      by (simp add: str_nat.simps [of n])
    have "n mod 10 < 10" by simp
    then show ?thesis
      unfolding eq using False 1 by (intro snoc digit_decimal) simp_all
  qed
qed

lemma str_nat_value: "foldl (\<lambda>acc c. 10 * acc + (of_char c - 48)) 0 (str_nat n) = n"
proof (induction n rule: str_nat.induct)
  case (1 n)
  show ?case
  proof (cases "n < 10")
    case True
    then show ?thesis
      by (simp add: str_nat.simps [of n] digit_code)
  next
    case False
    have "n mod 10 < 10" by simp
    then show ?thesis
      using False 1 by (simp add: str_nat.simps [of n] digit_code)
  qed
qed

section \<open>Opcodes outside the table of their program\<close>

lemma system_unknown:
  assumes "4 \<le> length data"
    and "map_of SYSTEM_INSTRUCTIONS (\<Sum>i<4. uint (data ! i) * 256 ^ i) = None"
  shows "decode_system_instruction data =
           Inr [(''type'', PStr (''Unknown('' @ str_int (\<Sum>i<4. uint (data ! i) * 256 ^ i) @ '')'')),
                (''raw_data'', PStr (bytes_hex data))]"
proof -
  have op: "from_bytes_little (py_slice data 0 4) = (\<Sum>i<4. uint (data ! i) * 256 ^ i)"
    using assms(1) from_bytes_little_slice [of 0 4 data] by simp
  have "(\<Sum>i<4. uint (data ! i) * 256 ^ i) \<noteq> 2"
    using assms(2) by (auto simp add: SYSTEM_INSTRUCTIONS_def)
  then show ?thesis
    using assms
    by (simp add: system_in_range op dict_get_def unknown_label_def raw_result_def Let_def)
qed

lemma token_unknown:
  assumes "1 \<le> length data" and "map_of TOKEN_INSTRUCTIONS (uint (data ! 0)) = None"
  shows "decode_token_instruction data =
           Inr [(''type'', PStr (''Unknown('' @ str_int (uint (data ! 0)) @ '')'')),
                (''raw_data'', PStr (bytes_hex data))]"
proof -
  have ne: "data \<noteq> []" "0 < length data"
    using assms(1) by auto
  have "uint (data ! 0) \<noteq> 1" "uint (data ! 0) \<noteq> 3"
    using assms(2) by (auto simp add: TOKEN_INSTRUCTIONS_def split: if_splits)
  then show ?thesis
    using assms ne
    by (simp add: decode_token_instruction_def getitem_in_range dict_get_def unknown_label_def
        raw_result_def Let_def)
qed

lemma amm_unknown:
  assumes "1 \<le> length data" and "map_of RAYDIUM_AMM_INSTRUCTIONS (uint (data ! 0)) = None"
  shows "decode_raydium_amm_instruction data =
           Inr [(''type'', PStr (''Unknown('' @ str_int (uint (data ! 0)) @ '')'')),
                (''raw_data'', PStr (bytes_hex data))]"
proof -
  have ne: "data \<noteq> []" "0 < length data"
    using assms(1) by auto
  have "uint (data ! 0) \<noteq> 2" "uint (data ! 0) \<noteq> 3" "uint (data ! 0) \<noteq> 4"
    using assms(2) by (auto simp add: RAYDIUM_AMM_INSTRUCTIONS_def split: if_splits)
  then show ?thesis
    using assms ne
    by (simp add: decode_raydium_amm_instruction_def getitem_in_range dict_get_def
        unknown_label_def raw_result_def Let_def)
qed

lemma clmm_unknown:
  assumes "1 \<le> length data" and "map_of RAYDIUM_CLMM_INSTRUCTIONS (uint (data ! 0)) = None"
  shows "decode_raydium_clmm_instruction data =
           Inr [(''type'', PStr (''Unknown('' @ str_int (uint (data ! 0)) @ '')'')),
                (''raw_data'', PStr (bytes_hex data))]"
proof -
  have ne: "data \<noteq> []" "0 < length data"
    using assms(1) by auto
  have "uint (data ! 0) \<noteq> 3"
    using assms(2) by (auto simp add: RAYDIUM_CLMM_INSTRUCTIONS_def split: if_splits)
  then show ?thesis
    using assms ne
    by (simp add: decode_raydium_clmm_instruction_def getitem_in_range dict_get_def
        unknown_label_def raw_result_def Let_def)
qed

lemma cpmm_unknown:
  assumes "9 \<le> length data" and "map_of RAYDIUM_CPMM_INSTRUCTIONS (uint (data ! 8)) = None"
  shows "decode_raydium_cpmm_instruction data =
           Inr [(''type'', PStr (''Unknown('' @ str_int (uint (data ! 8)) @ '')'')),
                (''raw_data'', PStr (bytes_hex data))]"
proof -
  have "uint (data ! 8) \<noteq> 5" "uint (data ! 8) \<noteq> 6" "uint (data ! 8) \<noteq> 7"
       "uint (data ! 8) \<noteq> 8" "uint (data ! 8) \<noteq> 9"
    using assms(2) by (auto simp add: RAYDIUM_CPMM_INSTRUCTIONS_def split: if_splits)
  then show ?thesis
    using assms
    by (simp add: cpmm_in_range cpmm_try_body_def try_except_pass_def dict_get_def
        unknown_label_def raw_result_def Let_def)
qed

text \<open>
  C5. For each of the six dispatched programs, on a buffer that holds the opcode field
  (four bytes for the system program, index 8 for the CPMM program, index 0 for the
  others), an opcode that the table of the program does not list gives the dictionary
  whose \<open>type\<close> is \<open>Unknown(n)\<close>, with \<open>n\<close> the decimal text of the opcode read at
  that place, next to the raw hex of the buffer. The dictionary has no \<open>program\<close>
  entry: it is not the answer given for an unknown program.
\<close>

theorem unknown_opcode_label:
  "(4 \<le> length data \<and> map_of SYSTEM_INSTRUCTIONS (\<Sum>i<4. uint (data ! i) * 256 ^ i) = None \<longrightarrow>
      decode_instruction_data SYSTEM_PROGRAM_ID data =
        Inr [(''type'', PStr (''Unknown('' @ str_int (\<Sum>i<4. uint (data ! i) * 256 ^ i) @ '')'')),
             (''raw_data'', PStr (bytes_hex data))])
   \<and> (1 \<le> length data \<and> map_of TOKEN_INSTRUCTIONS (uint (data ! 0)) = None \<longrightarrow>
      decode_instruction_data TOKEN_PROGRAM_ID data =
        Inr [(''type'', PStr (''Unknown('' @ str_int (uint (data ! 0)) @ '')'')),
             (''raw_data'', PStr (bytes_hex data))])
   \<and> (1 \<le> length data \<and> map_of TOKEN_2022_INSTRUCTIONS (uint (data ! 0)) = None \<longrightarrow>
      decode_instruction_data TOKEN_2022_PROGRAM_ID data =
        Inr [(''type'', PStr (''Unknown('' @ str_int (uint (data ! 0)) @ '')'')),
             (''raw_data'', PStr (bytes_hex data))])
   \<and> (1 \<le> length data \<and> map_of RAYDIUM_AMM_INSTRUCTIONS (uint (data ! 0)) = None \<longrightarrow>
      decode_instruction_data RAYDIUM_AMM_V4_PROGRAM_ID data =
        Inr [(''type'', PStr (''Unknown('' @ str_int (uint (data ! 0)) @ '')'')),
             (''raw_data'', PStr (bytes_hex data))])
   \<and> (9 \<le> length data \<and> map_of RAYDIUM_CPMM_INSTRUCTIONS (uint (data ! 8)) = None \<longrightarrow>
      decode_instruction_data RAYDIUM_CPMM_PROGRAM_ID data =
        Inr [(''type'', PStr (''Unknown('' @ str_int (uint (data ! 8)) @ '')'')),
             (''raw_data'', PStr (bytes_hex data))])
   \<and> (1 \<le> length data \<and> map_of RAYDIUM_CLMM_INSTRUCTIONS (uint (data ! 0)) = None \<longrightarrow>
      decode_instruction_data RAYDIUM_CLMM_PROGRAM_ID data =
        Inr [(''type'', PStr (''Unknown('' @ str_int (uint (data ! 0)) @ '')'')),
             (''raw_data'', PStr (bytes_hex data))])"
proof -
  have t22: "decode_token_2022_instruction data = decode_token_instruction data"
    unfolding decode_token_instruction_def decode_token_2022_instruction_def
      TOKEN_INSTRUCTIONS_def TOKEN_2022_INSTRUCTIONS_def
    by (rule refl)
  have tab: "TOKEN_2022_INSTRUCTIONS = TOKEN_INSTRUCTIONS"
    by (simp add: TOKEN_INSTRUCTIONS_def TOKEN_2022_INSTRUCTIONS_def)
  show ?thesis
    using system_unknown [of data] token_unknown [of data] amm_unknown [of data]
      clmm_unknown [of data] cpmm_unknown [of data]
    by (simp add: decode_instruction_data_def program_ids t22 tab)
qed

lemma str_int_200: "str_int 200 = ''200''"
  by (simp add: str_int_def str_nat.simps [of 200] str_nat.simps [of 20] str_nat.simps [of 2]
      hex_digit_def)

lemma hex_example: "bytes_hex [200, 0, 0, 0, 0, 0, 0, 0, 200] = ''c800000000000000c8''"
  by (simp add: bytes_hex_def hex_byte_def hex_digit_def)

theorem unknown_opcode_label_witness:
  "(9 \<le> length [200, 0, 0, 0, 0, 0, 0, 0, 200 :: 8 word]
    \<and> map_of SYSTEM_INSTRUCTIONS
         (\<Sum>i<4. uint ([200, 0, 0, 0, 0, 0, 0, 0, 200 :: 8 word] ! i) * 256 ^ i) = None
    \<and> map_of TOKEN_INSTRUCTIONS (uint ([200, 0, 0, 0, 0, 0, 0, 0, 200 :: 8 word] ! 0)) = None
    \<and> map_of TOKEN_2022_INSTRUCTIONS (uint ([200, 0, 0, 0, 0, 0, 0, 0, 200 :: 8 word] ! 0)) = None
    \<and> map_of RAYDIUM_AMM_INSTRUCTIONS (uint ([200, 0, 0, 0, 0, 0, 0, 0, 200 :: 8 word] ! 0)) = None
    \<and> map_of RAYDIUM_CPMM_INSTRUCTIONS (uint ([200, 0, 0, 0, 0, 0, 0, 0, 200 :: 8 word] ! 8)) = None
    \<and> map_of RAYDIUM_CLMM_INSTRUCTIONS (uint ([200, 0, 0, 0, 0, 0, 0, 0, 200 :: 8 word] ! 0)) = None)
   \<and> decode_instruction_data SYSTEM_PROGRAM_ID [200, 0, 0, 0, 0, 0, 0, 0, 200] =
        Inr [(''type'', PStr ''Unknown(200)''), (''raw_data'', PStr ''c800000000000000c8'')]
   \<and> decode_instruction_data TOKEN_PROGRAM_ID [200, 0, 0, 0, 0, 0, 0, 0, 200] =
        Inr [(''type'', PStr ''Unknown(200)''), (''raw_data'', PStr ''c800000000000000c8'')]
   \<and> decode_instruction_data TOKEN_2022_PROGRAM_ID [200, 0, 0, 0, 0, 0, 0, 0, 200] =
        Inr [(''type'', PStr ''Unknown(200)''), (''raw_data'', PStr ''c800000000000000c8'')]
   \<and> decode_instruction_data RAYDIUM_AMM_V4_PROGRAM_ID [200, 0, 0, 0, 0, 0, 0, 0, 200] =
        Inr [(''type'', PStr ''Unknown(200)''), (''raw_data'', PStr ''c800000000000000c8'')]
   \<and> decode_instruction_data RAYDIUM_CPMM_PROGRAM_ID [200, 0, 0, 0, 0, 0, 0, 0, 200] =
        Inr [(''type'', PStr ''Unknown(200)''), (''raw_data'', PStr ''c800000000000000c8'')]
   \<and> decode_instruction_data RAYDIUM_CLMM_PROGRAM_ID [200, 0, 0, 0, 0, 0, 0, 0, 200] =
        Inr [(''type'', PStr ''Unknown(200)''), (''raw_data'', PStr ''c800000000000000c8'')]"
  using unknown_opcode_label [of "[200, 0, 0, 0, 0, 0, 0, 0, 200]"]
  by (simp add: sum_lessThan_4 str_int_200 hex_example SYSTEM_INSTRUCTIONS_def
      TOKEN_INSTRUCTIONS_def TOKEN_2022_INSTRUCTIONS_def RAYDIUM_AMM_INSTRUCTIONS_def
      RAYDIUM_CPMM_INSTRUCTIONS_def RAYDIUM_CLMM_INSTRUCTIONS_def)

end
